theory Spec2Isabelle
  imports Main "HOL-Library.Word"
begin

section \<open>Channel index partition (TektronixOscilloscope.h)\<close>

text \<open>
  The driver keeps three configuration integers that decide the kind of a flat channel
  index. In the class they are declared as
  \<^verbatim>\<open>unsigned int m_analogChannelCount\<close>, \<^verbatim>\<open>size_t m_digitalChannelBase\<close> and
  \<^verbatim>\<open>size_t m_spectrumChannelBase\<close>. On the LP64 targets of the library
  \<^verbatim>\<open>unsigned int\<close> has 32 bits and \<^verbatim>\<open>size_t\<close> has 64 bits; both wrap around.
\<close>

type_synonym uint = "32 word"
type_synonym size_t = "64 word"

record channel_partition =
  m_analogChannelCount :: uint
  m_digitalChannelBase :: size_t
  m_spectrumChannelBase :: size_t

text \<open>
  \<^verbatim>\<open>bool IsAnalog(size_t index) { return index < m_analogChannelCount; }\<close>
  The comparison converts the 32-bit count to \<^verbatim>\<open>size_t\<close> (zero extension).
\<close>

definition IsAnalog :: "channel_partition \<Rightarrow> size_t \<Rightarrow> bool" where
  "IsAnalog c index = (index < ucast (m_analogChannelCount c))"

text \<open>
  \<^verbatim>\<open>if(index < m_digitalChannelBase) return false;
  if(index >= (m_digitalChannelBase + 8*m_analogChannelCount)) return false;
  return true;\<close>
  The product \<^verbatim>\<open>8*m_analogChannelCount\<close> is computed in \<^verbatim>\<open>unsigned int\<close>, then
  widened and added to the base in \<^verbatim>\<open>size_t\<close>.
\<close>

definition IsDigital :: "channel_partition \<Rightarrow> size_t \<Rightarrow> bool" where
  "IsDigital c index =
     (if index < m_digitalChannelBase c then False
      else if index \<ge> m_digitalChannelBase c + ucast (8 * m_analogChannelCount c) then False
      else True)"

text \<open>
  \<^verbatim>\<open>if(index < m_spectrumChannelBase) return false;
  if(index >= (m_spectrumChannelBase + m_analogChannelCount)) return false;
  return true;\<close>
\<close>

definition IsSpectrum :: "channel_partition \<Rightarrow> size_t \<Rightarrow> bool" where
  "IsSpectrum c index =
     (if index < m_spectrumChannelBase c then False
      else if index \<ge> m_spectrumChannelBase c + ucast (m_analogChannelCount c) then False
      else True)"

text \<open>
  Number of classifiers that accept an index. The header documents each classifier as
  excluding the other two kinds, so the intended value is 1 on a channel and 0 elsewhere.
\<close>

definition kinds_at :: "channel_partition \<Rightarrow> size_t \<Rightarrow> nat" where
  "kinds_at c index =
     (if IsAnalog c index then 1 else 0) + (if IsDigital c index then 1 else 0)
       + (if IsSpectrum c index then 1 else 0)"

text \<open>The same count over unbounded naturals, for ranges whose ends do not wrap.\<close>

definition kinds_nat :: "nat \<Rightarrow> nat \<Rightarrow> nat \<Rightarrow> nat \<Rightarrow> nat" where
  "kinds_nat A D S n =
     (if n < A then 1 else 0) + (if D \<le> n \<and> n < D + 8 * A then 1 else 0)
       + (if S \<le> n \<and> n < S + A then 1 else 0)"

subsection \<open>The classifiers in terms of unsigned values\<close>

lemma unat_ucast_uint: "unat (ucast (a::uint) :: size_t) = unat a"
proof -
  have "unat a < 2 ^ 32" using unsigned_less [of a] by simp
  then have "unat a < (2::nat) ^ 64" by simp
  then show ?thesis by (simp add: unsigned_ucast_eq take_bit_nat_eq_self)
qed

lemma IsAnalog_nat: "IsAnalog c i \<longleftrightarrow> unat i < unat (m_analogChannelCount c)"
  by (simp add: IsAnalog_def word_less_nat_alt unat_ucast_uint)

lemma digital_end_nat:
  "unat (m_digitalChannelBase c + ucast (8 * m_analogChannelCount c))
     = (unat (m_digitalChannelBase c) + (8 * unat (m_analogChannelCount c)) mod 2 ^ 32) mod 2 ^ 64"
  by (simp add: unat_word_ariths unat_ucast_uint)

lemma spectrum_end_nat:
  "unat (m_spectrumChannelBase c + ucast (m_analogChannelCount c))
     = (unat (m_spectrumChannelBase c) + unat (m_analogChannelCount c)) mod 2 ^ 64"
  by (simp add: unat_word_ariths unat_ucast_uint)

lemma IsDigital_nat:
  "IsDigital c i \<longleftrightarrow> unat (m_digitalChannelBase c) \<le> unat i \<and>
     unat i < (unat (m_digitalChannelBase c) + (8 * unat (m_analogChannelCount c)) mod 2 ^ 32) mod 2 ^ 64"
  unfolding IsDigital_def word_less_nat_alt word_le_nat_alt digital_end_nat
  by auto

lemma IsSpectrum_nat:
  "IsSpectrum c i \<longleftrightarrow> unat (m_spectrumChannelBase c) \<le> unat i \<and>
     unat i < (unat (m_spectrumChannelBase c) + unat (m_analogChannelCount c)) mod 2 ^ 64"
  unfolding IsSpectrum_def word_less_nat_alt word_le_nat_alt spectrum_end_nat
  by auto

lemma kinds_at_nat:
  assumes "8 * unat (m_analogChannelCount c) < 2 ^ 32"
    and "unat (m_digitalChannelBase c) + 8 * unat (m_analogChannelCount c) < 2 ^ 64"
    and "unat (m_spectrumChannelBase c) + unat (m_analogChannelCount c) < 2 ^ 64"
  shows "kinds_at c i = kinds_nat (unat (m_analogChannelCount c)) (unat (m_digitalChannelBase c))
           (unat (m_spectrumChannelBase c)) (unat i)"
  using assms by (simp add: kinds_at_def kinds_nat_def IsAnalog_nat IsDigital_nat IsSpectrum_nat)

lemma all_words_nat: "(\<forall>i::size_t. P (unat i)) \<longleftrightarrow> (\<forall>n < 2 ^ 64. P n)"
proof
  assume L: "\<forall>i::size_t. P (unat i)"
  show "\<forall>n < 2 ^ 64. P n"
  proof (intro allI impI)
    fix n :: nat assume "n < 2 ^ 64"
    then have "unat (of_nat n :: size_t) = n" by (simp add: unat_of_nat)
    with L [rule_format, of "of_nat n"] show "P n" by simp
  qed
next
  assume R: "\<forall>n < 2 ^ 64. P n"
  show "\<forall>i::size_t. P (unat i)"
  proof
    fix i :: size_t
    have "unat i < 2 ^ 64" using unsigned_less [of i] by simp
    with R show "P (unat i)" by blast
  qed
qed

subsection \<open>Which layouts tile an initial segment\<close>

lemma tiling_if:
  assumes "A = 0 \<and> T = 0 \<or> 0 < A \<and> T = 10 * A \<and> (D = A \<and> S = 9 * A \<or> S = A \<and> D = 2 * A)"
  shows "(n < T \<longrightarrow> kinds_nat A D S n = 1) \<and> (T \<le> n \<longrightarrow> kinds_nat A D S n = 0)"
  using assms unfolding kinds_nat_def by auto

lemma tiling_only_if:
  fixes A D S T N :: nat
  assumes dn: "D + 8 * A < N" and sn: "S + A < N"
    and H: "\<And>n. n < N \<Longrightarrow> (n < T \<longrightarrow> kinds_nat A D S n = 1) \<and> (T \<le> n \<longrightarrow> kinds_nat A D S n = 0)"
  shows "A = 0 \<and> T = 0 \<or> 0 < A \<and> T = 10 * A \<and> (D = A \<and> S = 9 * A \<or> S = A \<and> D = 2 * A)"
proof (cases "A = 0")
  case True
  have "0 < N" using dn by simp
  from H [OF this] True have "T = 0" by (auto simp: kinds_nat_def split: if_splits)
  with True show ?thesis by simp
next
  case False
  then have A: "0 < A" by simp
  \<comment> \<open>the first digital and the first spectrum index are channels of one kind only\<close>
  have hD: "A \<le> D \<and> D < T \<and> (D < S \<or> S + A \<le> D)"
    using H [of D] dn A by (auto simp: kinds_nat_def split: if_splits)
  have hS: "A \<le> S \<and> S < T \<and> (S < D \<or> D + 8 * A \<le> S)"
    using H [of S] sn A by (auto simp: kinds_nat_def split: if_splits)
  \<comment> \<open>the index right after the analog range belongs to one of the other two\<close>
  have hA: "D = A \<or> S = A"
    using H [of A] hD hS dn A by (auto simp: kinds_nat_def split: if_splits)
  then show ?thesis
  proof
    assume DA: "D = A"
    with hS A have S9: "9 * A \<le> S" by auto
    have "S = 9 * A"
      using H [of "9 * A"] S9 hS sn DA A by (auto simp: kinds_nat_def split: if_splits)
    moreover have "10 * A \<le> T"
    proof -
      have b: "10 * A - 1 < N" using \<open>S = 9 * A\<close> sn by arith
      have "kinds_nat A D S (10 * A - 1) \<noteq> 0"
        using \<open>S = 9 * A\<close> A by (simp add: kinds_nat_def)
      with H [OF b] have "\<not> T \<le> 10 * A - 1" by blast
      then show ?thesis by arith
    qed
    moreover have "T \<le> 10 * A"
      using H [of "10 * A"] \<open>S = 9 * A\<close> DA sn A by (auto simp: kinds_nat_def split: if_splits)
    ultimately show ?thesis using A DA by auto
  next
    assume SA: "S = A"
    with hD A have D2: "2 * A \<le> D" by auto
    have "D = 2 * A"
      using H [of "2 * A"] D2 hD dn SA A by (auto simp: kinds_nat_def split: if_splits)
    moreover have "10 * A \<le> T"
    proof -
      have b: "10 * A - 1 < N" using \<open>D = 2 * A\<close> dn by arith
      have "kinds_nat A D S (10 * A - 1) \<noteq> 0"
        using \<open>D = 2 * A\<close> A by (simp add: kinds_nat_def)
      with H [OF b] have "\<not> T \<le> 10 * A - 1" by blast
      then show ?thesis by arith
    qed
    moreover have "T \<le> 10 * A"
      using H [of "10 * A"] \<open>D = 2 * A\<close> SA dn A by (auto simp: kinds_nat_def split: if_splits)
    ultimately show ?thesis using A SA by auto
  qed
qed

subsection \<open>Claims on the channel index partition\<close>

text \<open>
  Claim C1, as the specification states it: for every value of the three configuration
  integers and every index below the total channel count exactly one classifier accepts
  the index, and the three ranges cover exactly the indices below the total channel count.
  The classifiers compare against whatever bases are stored; with four analog channels,
  digital base 4 and spectrum base 8, index 8 is accepted both as digital and as spectrum,
  so it is neither a channel of exactly one kind nor an index of no kind, whatever the
  total channel count is.
\<close>

theorem partition_overlap_counterexample:
  "IsDigital \<lparr>m_analogChannelCount = 4, m_digitalChannelBase = 4, m_spectrumChannelBase = 8\<rparr> 8
   \<and> IsSpectrum \<lparr>m_analogChannelCount = 4, m_digitalChannelBase = 4, m_spectrumChannelBase = 8\<rparr> 8
   \<and> kinds_at \<lparr>m_analogChannelCount = 4, m_digitalChannelBase = 4, m_spectrumChannelBase = 8\<rparr> 8 = 2"
  by (simp add: kinds_at_def IsAnalog_def IsDigital_def IsSpectrum_def)

text \<open>
  Claim C1, amended: among the configurations whose range ends do not wrap around, every
  index below the total channel count is accepted by exactly one classifier and every other
  index by none if and only if the ranges are laid out back to back from index 0: either
  there are no channels at all, or the total is ten times the analog count and the analog
  range is followed by the digital and then the spectrum range, or by the spectrum and then
  the digital range.
\<close>

theorem partition_tiles_iff:
  assumes m: "8 * unat (m_analogChannelCount c) < 2 ^ 32"
    and d: "unat (m_digitalChannelBase c) + 8 * unat (m_analogChannelCount c) < 2 ^ 64"
    and s: "unat (m_spectrumChannelBase c) + unat (m_analogChannelCount c) < 2 ^ 64"
  shows "(\<forall>i. (unat i < totalChannelCount \<longrightarrow> kinds_at c i = 1)
            \<and> (totalChannelCount \<le> unat i \<longrightarrow> kinds_at c i = 0))
     \<longleftrightarrow> (unat (m_analogChannelCount c) = 0 \<and> totalChannelCount = 0
          \<or> 0 < unat (m_analogChannelCount c)
            \<and> totalChannelCount = 10 * unat (m_analogChannelCount c)
            \<and> (unat (m_digitalChannelBase c) = unat (m_analogChannelCount c)
                  \<and> unat (m_spectrumChannelBase c) = 9 * unat (m_analogChannelCount c)
               \<or> unat (m_spectrumChannelBase c) = unat (m_analogChannelCount c)
                  \<and> unat (m_digitalChannelBase c) = 2 * unat (m_analogChannelCount c)))"
    (is "?L \<longleftrightarrow> ?R")
proof -
  let ?A = "unat (m_analogChannelCount c)"
  let ?D = "unat (m_digitalChannelBase c)"
  let ?S = "unat (m_spectrumChannelBase c)"
  let ?P = "\<lambda>n. (n < totalChannelCount \<longrightarrow> kinds_nat ?A ?D ?S n = 1)
             \<and> (totalChannelCount \<le> n \<longrightarrow> kinds_nat ?A ?D ?S n = 0)"
  have "?L \<longleftrightarrow> (\<forall>i::size_t. ?P (unat i))"
    by (simp only: kinds_at_nat [OF m d s])
  also have "\<dots> \<longleftrightarrow> (\<forall>n < 2 ^ 64. ?P n)"
    by (rule all_words_nat)
  also have "\<dots> \<longleftrightarrow> ?R"
  proof
    assume "\<forall>n < 2 ^ 64. ?P n"
    then have "\<And>n. n < 2 ^ 64 \<Longrightarrow> ?P n" by blast
    from tiling_only_if [OF d s this] show ?R by simp
  next
    assume ?R
    from tiling_if [OF this] show "\<forall>n < 2 ^ 64. ?P n" by blast
  qed
  finally show ?thesis .
qed

theorem partition_tiles_iff_witness:
  "8 * unat (4::uint) < (2::nat) ^ 32
   \<and> unat (8::size_t) + 8 * unat (4::uint) < (2::nat) ^ 64
   \<and> unat (4::size_t) + unat (4::uint) < (2::nat) ^ 64
   \<and> kinds_at \<lparr>m_analogChannelCount = 4, m_digitalChannelBase = 8, m_spectrumChannelBase = 4\<rparr> 0 = 1
   \<and> kinds_at \<lparr>m_analogChannelCount = 4, m_digitalChannelBase = 8, m_spectrumChannelBase = 4\<rparr> 39 = 1
   \<and> kinds_at \<lparr>m_analogChannelCount = 4, m_digitalChannelBase = 8, m_spectrumChannelBase = 4\<rparr> 40 = 0"
proof -
  let ?c = "\<lparr>m_analogChannelCount = 4, m_digitalChannelBase = 8, m_spectrumChannelBase = 4\<rparr>"
  have all: "\<forall>i. (unat i < 40 \<longrightarrow> kinds_at ?c i = 1) \<and> (40 \<le> unat i \<longrightarrow> kinds_at ?c i = 0)"
    using partition_tiles_iff [of ?c 40] by simp
  from all [THEN spec, of 0] all [THEN spec, of 39] all [THEN spec, of 40]
  show ?thesis by simp
qed

text \<open>
  Claim C2: \<open>IsAnalog\<close> accepts exactly the indices below the analog count,
  \<open>IsDigital\<close> exactly those from the digital base up to, and excluding, the digital base
  plus eight times the analog count, and \<open>IsSpectrum\<close> exactly those from the spectrum base
  up to, and excluding, the spectrum base plus the analog count. The range ends are the
  values the driver computes; where they do not wrap around they are the sums over the
  naturals. Each classifier is a function of the index and the three configuration
  integers alone.
\<close>

theorem classifier_ranges:
  "(IsAnalog c i \<longleftrightarrow> unat i \<in> {0 ..< unat (m_analogChannelCount c)})
   \<and> (IsDigital c i \<longleftrightarrow>
        i \<in> {m_digitalChannelBase c ..< m_digitalChannelBase c + ucast (8 * m_analogChannelCount c)})
   \<and> (IsSpectrum c i \<longleftrightarrow>
        i \<in> {m_spectrumChannelBase c ..< m_spectrumChannelBase c + ucast (m_analogChannelCount c)})
   \<and> (8 * unat (m_analogChannelCount c) < 2 ^ 32
        \<and> unat (m_digitalChannelBase c) + 8 * unat (m_analogChannelCount c) < 2 ^ 64 \<longrightarrow>
      (IsDigital c i \<longleftrightarrow>
        unat i \<in> {unat (m_digitalChannelBase c)
                    ..< unat (m_digitalChannelBase c) + 8 * unat (m_analogChannelCount c)}))
   \<and> (unat (m_spectrumChannelBase c) + unat (m_analogChannelCount c) < 2 ^ 64 \<longrightarrow>
      (IsSpectrum c i \<longleftrightarrow>
        unat i \<in> {unat (m_spectrumChannelBase c)
                    ..< unat (m_spectrumChannelBase c) + unat (m_analogChannelCount c)}))"
proof (intro conjI impI)
  show "IsAnalog c i \<longleftrightarrow> unat i \<in> {0 ..< unat (m_analogChannelCount c)}"
    by (simp add: IsAnalog_nat)
  show "IsDigital c i \<longleftrightarrow>
      i \<in> {m_digitalChannelBase c ..< m_digitalChannelBase c + ucast (8 * m_analogChannelCount c)}"
    by (auto simp: IsDigital_def)
  show "IsSpectrum c i \<longleftrightarrow>
      i \<in> {m_spectrumChannelBase c ..< m_spectrumChannelBase c + ucast (m_analogChannelCount c)}"
    by (auto simp: IsSpectrum_def)
next
  assume "8 * unat (m_analogChannelCount c) < 2 ^ 32
        \<and> unat (m_digitalChannelBase c) + 8 * unat (m_analogChannelCount c) < 2 ^ 64"
  then show "IsDigital c i \<longleftrightarrow>
        unat i \<in> {unat (m_digitalChannelBase c)
                    ..< unat (m_digitalChannelBase c) + 8 * unat (m_analogChannelCount c)}"
    by (simp add: IsDigital_nat)
next
  assume "unat (m_spectrumChannelBase c) + unat (m_analogChannelCount c) < 2 ^ 64"
  then show "IsSpectrum c i \<longleftrightarrow>
        unat i \<in> {unat (m_spectrumChannelBase c)
                    ..< unat (m_spectrumChannelBase c) + unat (m_analogChannelCount c)}"
    by (simp add: IsSpectrum_nat)
qed

theorem classifier_ranges_witness:
  "8 * unat (4::uint) < (2::nat) ^ 32 \<and> unat (8::size_t) + 8 * unat (4::uint) < (2::nat) ^ 64
   \<and> unat (4::size_t) + unat (4::uint) < (2::nat) ^ 64
   \<and> IsDigital \<lparr>m_analogChannelCount = 4, m_digitalChannelBase = 8, m_spectrumChannelBase = 4\<rparr> 39
   \<and> \<not> IsDigital \<lparr>m_analogChannelCount = 4, m_digitalChannelBase = 8, m_spectrumChannelBase = 4\<rparr> 40
   \<and> IsSpectrum \<lparr>m_analogChannelCount = 4, m_digitalChannelBase = 8, m_spectrumChannelBase = 4\<rparr> 7
   \<and> \<not> IsSpectrum \<lparr>m_analogChannelCount = 4, m_digitalChannelBase = 8, m_spectrumChannelBase = 4\<rparr> 8"
  using
    classifier_ranges
      [of "\<lparr>m_analogChannelCount = 4, m_digitalChannelBase = 8, m_spectrumChannelBase = 4\<rparr>" 39]
    classifier_ranges
      [of "\<lparr>m_analogChannelCount = 4, m_digitalChannelBase = 8, m_spectrumChannelBase = 4\<rparr>" 40]
    classifier_ranges
      [of "\<lparr>m_analogChannelCount = 4, m_digitalChannelBase = 8, m_spectrumChannelBase = 4\<rparr>" 7]
    classifier_ranges
      [of "\<lparr>m_analogChannelCount = 4, m_digitalChannelBase = 8, m_spectrumChannelBase = 4\<rparr>" 8]
  by simp

section \<open>Waveform containers (Waveform.h)\<close>

text \<open>
  A scalar member or vector element either holds a value or has never been given one.
  C++ leaves a default-initialized primitive indeterminate; the model keeps that state
  apart from every value, so a claim about "not initialized" is a claim about
  \<open>Indeterminate\<close>.
\<close>

datatype 'a storage = Indeterminate | Value 'a

text \<open>
  \<^verbatim>\<open>template<class T> class EmptyConstructorWrapper\<close>: one member \<^verbatim>\<open>T m_value\<close>. The default
  constructor has an empty body and no initializer, the converting constructor and the
  assignment store their argument.
\<close>

type_synonym 'a EmptyConstructorWrapper = "'a storage"

definition EmptyConstructorWrapper :: "'a EmptyConstructorWrapper" where
  "EmptyConstructorWrapper = Indeterminate"

definition EmptyConstructorWrapper_from :: "'a \<Rightarrow> 'a EmptyConstructorWrapper" where
  "EmptyConstructorWrapper_from rhs = Value rhs"

definition assign :: "'a EmptyConstructorWrapper \<Rightarrow> 'a \<Rightarrow> 'a EmptyConstructorWrapper" where
  "assign w rhs = Value rhs"

text \<open>
  The exceptions \<^verbatim>\<open>std::vector<T>::resize\<close> can raise: \<^verbatim>\<open>std::length_error\<close> for a size
  above \<^verbatim>\<open>max_size()\<close>, and \<^verbatim>\<open>std::bad_alloc\<close> when the allocator cannot provide the
  storage.
\<close>

datatype cxx_exception = length_error | bad_alloc

text \<open>
  \<^verbatim>\<open>std::vector<T>::resize(n)\<close>. A size that does not exceed the current one erases the
  elements from position \<open>n\<close> on and cannot fail. A larger size appends value-initialized
  elements up to size \<open>n\<close>, \<open>dflt\<close> being the value-initialized element of the element
  type; it raises \<^verbatim>\<open>std::length_error\<close> when \<open>n\<close> is above the vector's \<^verbatim>\<open>max_size()\<close>, here
  \<open>limit\<close>, and \<^verbatim>\<open>std::bad_alloc\<close> when the storage for the growth is not there: \<open>granted\<close>
  says whether the vector's capacity suffices or the allocator provides the new storage.
  A call that raises leaves the vector as it was. \<^verbatim>\<open>std::vector<T>::clear()\<close> removes
  every element and cannot fail. Sizes are \<^verbatim>\<open>size_t\<close>.
\<close>

definition vector_resize ::
  "nat \<Rightarrow> bool \<Rightarrow> 'a \<Rightarrow> size_t \<Rightarrow> 'a list \<Rightarrow> cxx_exception + 'a list" where
  "vector_resize limit granted dflt n xs =
     (if unat n \<le> length xs then Inr (take (unat n) xs)
      else if limit < unat n then Inl length_error
      else if \<not> granted then Inl bad_alloc
      else Inr (xs @ replicate (unat n - length xs) dflt))"

definition vector_clear :: "'a list \<Rightarrow> 'a list" where
  "vector_clear xs = []"

text \<open>
  What the standard library and the allocator contribute to a run, for each of the three
  vectors of a waveform: the vector's \<^verbatim>\<open>max_size()\<close>, which the implementation defines
  from the size of the element type, and whether a growth of the vector gets its
  storage.
\<close>

datatype member = Offsets | Durations | Samples

record allocation =
  max_size :: "member \<Rightarrow> nat"
  grants :: "member \<Rightarrow> bool"

type_synonym int64_t = "64 word"
type_synonym time_t = "64 word"
type_synonym double = "64 word"

record WaveformBase =
  m_timescale :: "int64_t storage"
  m_startTimestamp :: "time_t storage"
  m_startPicoseconds :: "int64_t storage"
  m_triggerPhase :: "double storage"
  m_offsets :: "int64_t EmptyConstructorWrapper list"
  m_durations :: "int64_t EmptyConstructorWrapper list"

record 'S Waveform = WaveformBase +
  m_samples :: "'S list"

text \<open>
  The object before the constructor body runs: no member has an initializer, so the four
  scalars are indeterminate and the vectors are default-constructed, which is empty.
\<close>

definition default_initialized :: WaveformBase where
  "default_initialized =
     \<lparr>m_timescale = Indeterminate, m_startTimestamp = Indeterminate,
      m_startPicoseconds = Indeterminate, m_triggerPhase = Indeterminate,
      m_offsets = [], m_durations = []\<rparr>"

text \<open>
  \<^verbatim>\<open>WaveformBase() { m_triggerPhase = 0; m_startTimestamp = 0; m_startPicoseconds = 0; }\<close>
\<close>

definition WaveformBase_body :: "WaveformBase \<Rightarrow> WaveformBase" where
  "WaveformBase_body w =
     w\<lparr>m_triggerPhase := Value 0, m_startTimestamp := Value 0, m_startPicoseconds := Value 0\<rparr>"

definition WaveformBase_new :: WaveformBase where
  "WaveformBase_new = WaveformBase_body default_initialized"

text \<open>
  \<^verbatim>\<open>WaveformBase::clear\<close> and \<^verbatim>\<open>WaveformBase::Resize\<close>. \<open>Resize\<close> resizes the offsets and
  then the durations; an exception of the first call leaves the function before the
  second call runs, and nothing undoes a call that has returned. The result is the
  exception that left the function, if any, and the object as the call leaves it.
\<close>

definition WaveformBase_clear :: "'a WaveformBase_scheme \<Rightarrow> 'a WaveformBase_scheme" where
  "WaveformBase_clear w =
     w\<lparr>m_offsets := vector_clear (m_offsets w), m_durations := vector_clear (m_durations w)\<rparr>"

definition WaveformBase_Resize ::
  "allocation \<Rightarrow> size_t \<Rightarrow> 'a WaveformBase_scheme
     \<Rightarrow> cxx_exception option \<times> 'a WaveformBase_scheme" where
  "WaveformBase_Resize env sz w =
     (case vector_resize (max_size env Offsets) (grants env Offsets)
             EmptyConstructorWrapper sz (m_offsets w) of
        Inl e \<Rightarrow> (Some e, w)
      | Inr offsets \<Rightarrow>
          (case vector_resize (max_size env Durations) (grants env Durations)
                  EmptyConstructorWrapper sz (m_durations w) of
             Inl e \<Rightarrow> (Some e, w\<lparr>m_offsets := offsets\<rparr>)
           | Inr durations \<Rightarrow> (None, w\<lparr>m_offsets := offsets, m_durations := durations\<rparr>)))"

text \<open>
  \<^verbatim>\<open>Waveform<S>::Resize\<close> and \<^verbatim>\<open>Waveform<S>::clear\<close>, the overriders that run for every
  \<^verbatim>\<open>Waveform<S>\<close> object. \<open>Resize\<close> resizes the offsets, the durations and the samples in
  this order, with no handler around the three calls. \<open>S0\<close> is the value-initialized
  sample of type \<open>S\<close>.
\<close>

definition Resize ::
  "allocation \<Rightarrow> 'S \<Rightarrow> size_t \<Rightarrow> 'S Waveform \<Rightarrow> cxx_exception option \<times> 'S Waveform" where
  "Resize env S0 sz w =
     (case vector_resize (max_size env Offsets) (grants env Offsets)
             EmptyConstructorWrapper sz (m_offsets w) of
        Inl e \<Rightarrow> (Some e, w)
      | Inr offsets \<Rightarrow>
          (case vector_resize (max_size env Durations) (grants env Durations)
                  EmptyConstructorWrapper sz (m_durations w) of
             Inl e \<Rightarrow> (Some e, w\<lparr>m_offsets := offsets\<rparr>)
           | Inr durations \<Rightarrow>
               (case vector_resize (max_size env Samples) (grants env Samples)
                       S0 sz (m_samples w) of
                  Inl e \<Rightarrow> (Some e, w\<lparr>m_offsets := offsets, m_durations := durations\<rparr>)
                | Inr samples \<Rightarrow>
                    (None, w\<lparr>m_offsets := offsets, m_durations := durations,
                              m_samples := samples\<rparr>))))"

definition clear :: "'S Waveform \<Rightarrow> 'S Waveform" where
  "clear w =
     w\<lparr>m_offsets := vector_clear (m_offsets w),
       m_durations := vector_clear (m_durations w),
       m_samples := vector_clear (m_samples w)\<rparr>"

text \<open>
  A resize goes through when the vector does not have to grow, or the new size is within
  the vector's \<^verbatim>\<open>max_size()\<close> and the growth gets its storage.
\<close>

definition goes_through :: "allocation \<Rightarrow> member \<Rightarrow> size_t \<Rightarrow> 'a list \<Rightarrow> bool" where
  "goes_through env m n xs \<longleftrightarrow>
     unat n \<le> length xs \<or> (unat n \<le> max_size env m \<and> grants env m)"

text \<open>
  The GNU C++ library on a 64-bit target: \<^verbatim>\<open>max_size()\<close> is the largest \<^verbatim>\<open>ptrdiff_t\<close>
  divided by the element size, which is 8 bytes for the offsets and durations and 4 bytes
  for \<^verbatim>\<open>float\<close> samples. In \<open>plenty\<close> every growth gets its storage, in \<open>exhausted\<close> the
  storage runs out after the offsets have grown.
\<close>

definition plenty :: allocation where
  "plenty =
     \<lparr>max_size = (\<lambda>m. if m = Samples then 2305843009213693951 else 1152921504606846975),
      grants = (\<lambda>m. True)\<rparr>"

definition exhausted :: allocation where
  "exhausted =
     \<lparr>max_size = (\<lambda>m. if m = Samples then 2305843009213693951 else 1152921504606846975),
      grants = (\<lambda>m. m = Offsets)\<rparr>"

text \<open>An analog waveform with one sample, and one without samples.\<close>

definition one_sample :: "32 word Waveform" where
  "one_sample =
     \<lparr>m_timescale = Value 1000, m_startTimestamp = Value 0, m_startPicoseconds = Value 0,
      m_triggerPhase = Value 0, m_offsets = [Value 5], m_durations = [Value 1],
      m_samples = [25]\<rparr>"

definition no_samples :: "32 word Waveform" where
  "no_samples =
     \<lparr>m_timescale = Value 1000, m_startTimestamp = Value 0, m_startPicoseconds = Value 0,
      m_triggerPhase = Value 0, m_offsets = [], m_durations = [], m_samples = []\<rparr>"

subsection \<open>Resizing and clearing\<close>

lemma vector_resize_Inr_iff:
  "(\<exists>ys. vector_resize limit granted dflt n xs = Inr ys)
     \<longleftrightarrow> unat n \<le> length xs \<or> (unat n \<le> limit \<and> granted)"
  by (auto simp: vector_resize_def)

lemma vector_resize_length:
  "vector_resize limit granted dflt n xs = Inr ys \<Longrightarrow> length ys = unat n"
  by (auto simp: vector_resize_def split: if_splits)

lemma vector_resize_old:
  "vector_resize limit granted dflt n xs = Inr ys \<Longrightarrow> k < length xs \<Longrightarrow> k < unat n
     \<Longrightarrow> ys ! k = xs ! k"
  by (auto simp: vector_resize_def nth_append split: if_splits)

lemma vector_resize_new:
  "vector_resize limit granted dflt n xs = Inr ys \<Longrightarrow> length xs \<le> k \<Longrightarrow> k < length ys
     \<Longrightarrow> ys ! k = dflt"
  by (auto simp: vector_resize_def nth_append split: if_splits)

lemma isl_vector_resize:
  "isl (vector_resize limit granted dflt n xs)
     \<longleftrightarrow> \<not> (unat n \<le> length xs \<or> (unat n \<le> limit \<and> granted))"
  by (auto simp: vector_resize_def)

lemma Resize_returns_isl:
  "fst (Resize env S0 n w) = None \<longleftrightarrow>
     \<not> isl (vector_resize (max_size env Offsets) (grants env Offsets)
              EmptyConstructorWrapper n (m_offsets w))
     \<and> \<not> isl (vector_resize (max_size env Durations) (grants env Durations)
              EmptyConstructorWrapper n (m_durations w))
     \<and> \<not> isl (vector_resize (max_size env Samples) (grants env Samples) S0 n (m_samples w))"
  by (simp add: Resize_def split: sum.splits)

lemma Resize_returns_iff:
  "fst (Resize env S0 n w) = None \<longleftrightarrow>
     goes_through env Offsets n (m_offsets w) \<and> goes_through env Durations n (m_durations w)
     \<and> goes_through env Samples n (m_samples w)"
  unfolding Resize_returns_isl isl_vector_resize goes_through_def by simp

lemma Resize_returned_lengths:
  assumes "fst (Resize env S0 n w) = None"
  shows "length (m_offsets (snd (Resize env S0 n w))) = unat n"
    and "length (m_durations (snd (Resize env S0 n w))) = unat n"
    and "length (m_samples (snd (Resize env S0 n w))) = unat n"
  using assms
  by (auto simp: Resize_def vector_resize_length split: sum.splits)

lemma Resize_added_offsets:
  "length (m_offsets w) \<le> k \<Longrightarrow> k < length (m_offsets (snd (Resize env S0 n w)))
     \<Longrightarrow> m_offsets (snd (Resize env S0 n w)) ! k = Indeterminate"
  by (auto simp: Resize_def EmptyConstructorWrapper_def split: sum.splits
      dest: vector_resize_new)

lemma Resize_added_durations:
  "length (m_durations w) \<le> k \<Longrightarrow> k < length (m_durations (snd (Resize env S0 n w)))
     \<Longrightarrow> m_durations (snd (Resize env S0 n w)) ! k = Indeterminate"
  by (auto simp: Resize_def EmptyConstructorWrapper_def split: sum.splits
      dest: vector_resize_new)

lemma WaveformBase_Resize_added_offsets:
  "length (m_offsets w) \<le> k \<Longrightarrow> k < length (m_offsets (snd (WaveformBase_Resize env n w)))
     \<Longrightarrow> m_offsets (snd (WaveformBase_Resize env n w)) ! k = Indeterminate"
  by (auto simp: WaveformBase_Resize_def EmptyConstructorWrapper_def split: sum.splits
      dest: vector_resize_new)

lemma WaveformBase_Resize_added_durations:
  "length (m_durations w) \<le> k \<Longrightarrow> k < length (m_durations (snd (WaveformBase_Resize env n w)))
     \<Longrightarrow> m_durations (snd (WaveformBase_Resize env n w)) ! k = Indeterminate"
  by (auto simp: WaveformBase_Resize_def EmptyConstructorWrapper_def split: sum.splits
      dest: vector_resize_new)

lemma WaveformBase_Resize_returned_lengths:
  assumes "fst (WaveformBase_Resize env n w) = None"
  shows "length (m_offsets (snd (WaveformBase_Resize env n w))) = unat n"
    and "length (m_durations (snd (WaveformBase_Resize env n w))) = unat n"
  using assms
  by (auto simp: WaveformBase_Resize_def vector_resize_length split: sum.splits)

text \<open>
  Claim C9, as stated: for every \<^verbatim>\<open>Waveform<S>\<close> object and every size \<open>n\<close>, \<open>Resize\<close> leaves
  the offsets, the durations and the samples with exactly \<open>n\<close> elements each. A size above
  \<^verbatim>\<open>max_size()\<close> makes the first \<^verbatim>\<open>resize\<close> raise \<^verbatim>\<open>std::length_error\<close>, and the waveform
  keeps its old sizes; storage that runs out after the offsets have grown makes the
  second \<^verbatim>\<open>resize\<close> raise \<^verbatim>\<open>std::bad_alloc\<close>, and the offsets have three elements while
  the durations and the samples still have one.
\<close>

theorem Resize_throws_counterexample:
  "Resize plenty 0 18446744073709551615 no_samples = (Some length_error, no_samples)
   \<and> length (m_offsets (snd (Resize plenty 0 18446744073709551615 no_samples)))
        \<noteq> unat (18446744073709551615 :: size_t)
   \<and> fst (Resize exhausted 0 3 one_sample) = Some bad_alloc
   \<and> length (m_offsets (snd (Resize exhausted 0 3 one_sample))) = 3
   \<and> length (m_durations (snd (Resize exhausted 0 3 one_sample))) = 1
   \<and> length (m_samples (snd (Resize exhausted 0 3 one_sample))) = 1"
  by (simp add: Resize_def vector_resize_def plenty_def exhausted_def no_samples_def
      one_sample_def)

text \<open>
  Claim C9, amended: \<open>Resize\<close> returns without an exception exactly when each of the three
  \<^verbatim>\<open>resize\<close> calls goes through, and for every \<^verbatim>\<open>Waveform<S>\<close> object and every size \<open>n\<close>
  a \<open>Resize\<close> that returns leaves the offsets, the durations and the samples with exactly
  \<open>n\<close> elements each; \<open>clear\<close> leaves all three empty; hence after a \<open>Resize\<close> that returns
  and after \<open>clear\<close> the three sequences have equal length.
\<close>

theorem Resize_clear_lengths:
  "(fst (Resize env S0 n w) = None \<longleftrightarrow>
      goes_through env Offsets n (m_offsets w) \<and> goes_through env Durations n (m_durations w)
      \<and> goes_through env Samples n (m_samples w))
   \<and> (fst (Resize env S0 n w) = None \<longrightarrow>
      length (m_offsets (snd (Resize env S0 n w))) = unat n
      \<and> length (m_durations (snd (Resize env S0 n w))) = unat n
      \<and> length (m_samples (snd (Resize env S0 n w))) = unat n
      \<and> length (m_offsets (snd (Resize env S0 n w)))
           = length (m_durations (snd (Resize env S0 n w)))
      \<and> length (m_durations (snd (Resize env S0 n w)))
           = length (m_samples (snd (Resize env S0 n w))))
   \<and> m_offsets (clear w) = [] \<and> m_durations (clear w) = [] \<and> m_samples (clear w) = []
   \<and> length (m_offsets (clear w)) = length (m_durations (clear w))
   \<and> length (m_durations (clear w)) = length (m_samples (clear w))"
proof -
  have c: "m_offsets (clear w) = []" "m_durations (clear w) = []" "m_samples (clear w) = []"
    by (simp_all add: clear_def vector_clear_def)
  have r: "fst (Resize env S0 n w) = None \<longrightarrow>
      length (m_offsets (snd (Resize env S0 n w))) = unat n
      \<and> length (m_durations (snd (Resize env S0 n w))) = unat n
      \<and> length (m_samples (snd (Resize env S0 n w))) = unat n"
    by (simp add: Resize_returned_lengths)
  from c r Resize_returns_iff [of env S0 n w] show ?thesis by simp
qed

theorem Resize_clear_lengths_witness:
  "fst (Resize plenty 0 3 one_sample) = None
   \<and> goes_through plenty Offsets 3 (m_offsets one_sample)
   \<and> length (m_offsets (snd (Resize plenty 0 3 one_sample))) = 3
   \<and> length (m_durations (snd (Resize plenty 0 3 one_sample))) = 3
   \<and> length (m_samples (snd (Resize plenty 0 3 one_sample))) = 3"
proof -
  have returns: "fst (Resize plenty 0 3 one_sample) = None"
    by (simp add: Resize_def vector_resize_def plenty_def one_sample_def)
  note t = Resize_clear_lengths [where env = plenty and n = 3 and w = one_sample and ?S0.0 = 0]
  from t [THEN conjunct1] returns
  have g: "goes_through plenty Offsets 3 (m_offsets one_sample)" by simp
  from t [THEN conjunct2, THEN conjunct1, THEN mp, OF returns] returns g
  show ?thesis by simp
qed

text \<open>
  Claim C10: a freshly default-constructed \<^verbatim>\<open>WaveformBase\<close> has trigger phase, start
  timestamp and start picoseconds equal to zero, while the constructor never assigns the
  time scale, which keeps whatever the storage held (nothing, on fresh storage). The
  entries that \<open>Resize\<close> adds to the offsets and durations are indeterminate as well, since
  the default constructor of their element type stores nothing: this holds for whatever
  a \<open>Resize\<close> has added when it leaves, and for all entries from the old size up to \<open>n\<close>
  when it returns.
\<close>

theorem constructor_and_Resize_uninitialized:
  "m_triggerPhase WaveformBase_new = Value 0
   \<and> m_startTimestamp WaveformBase_new = Value 0
   \<and> m_startPicoseconds WaveformBase_new = Value 0
   \<and> m_timescale WaveformBase_new = Indeterminate
   \<and> m_timescale (WaveformBase_body w0) = m_timescale w0
   \<and> (\<forall>k. length (m_offsets w) \<le> k \<and> k < length (m_offsets (snd (Resize env init n w))) \<longrightarrow>
          m_offsets (snd (Resize env init n w)) ! k = Indeterminate)
   \<and> (\<forall>k. length (m_durations w) \<le> k \<and> k < length (m_durations (snd (Resize env init n w))) \<longrightarrow>
          m_durations (snd (Resize env init n w)) ! k = Indeterminate)
   \<and> (\<forall>k. length (m_offsets b) \<le> k
            \<and> k < length (m_offsets (snd (WaveformBase_Resize env n b))) \<longrightarrow>
          m_offsets (snd (WaveformBase_Resize env n b)) ! k = Indeterminate)
   \<and> (\<forall>k. length (m_durations b) \<le> k
            \<and> k < length (m_durations (snd (WaveformBase_Resize env n b))) \<longrightarrow>
          m_durations (snd (WaveformBase_Resize env n b)) ! k = Indeterminate)
   \<and> (fst (Resize env init n w) = None \<longrightarrow>
        (\<forall>k. length (m_offsets w) \<le> k \<and> k < unat n \<longrightarrow>
            m_offsets (snd (Resize env init n w)) ! k = Indeterminate)
        \<and> (\<forall>k. length (m_durations w) \<le> k \<and> k < unat n \<longrightarrow>
            m_durations (snd (Resize env init n w)) ! k = Indeterminate))
   \<and> (fst (WaveformBase_Resize env n b) = None \<longrightarrow>
        (\<forall>k. length (m_offsets b) \<le> k \<and> k < unat n \<longrightarrow>
            m_offsets (snd (WaveformBase_Resize env n b)) ! k = Indeterminate)
        \<and> (\<forall>k. length (m_durations b) \<le> k \<and> k < unat n \<longrightarrow>
            m_durations (snd (WaveformBase_Resize env n b)) ! k = Indeterminate))"
proof -
  have ctor: "m_triggerPhase WaveformBase_new = Value 0"
      "m_startTimestamp WaveformBase_new = Value 0"
      "m_startPicoseconds WaveformBase_new = Value 0"
      "m_timescale WaveformBase_new = Indeterminate"
      "m_timescale (WaveformBase_body w0) = m_timescale w0"
    by (simp_all add: WaveformBase_new_def WaveformBase_body_def default_initialized_def)
  have added: "\<forall>k. length (m_offsets w) \<le> k \<and> k < length (m_offsets (snd (Resize env init n w))) \<longrightarrow>
          m_offsets (snd (Resize env init n w)) ! k = Indeterminate"
      "\<forall>k. length (m_durations w) \<le> k \<and> k < length (m_durations (snd (Resize env init n w))) \<longrightarrow>
          m_durations (snd (Resize env init n w)) ! k = Indeterminate"
      "\<forall>k. length (m_offsets b) \<le> k
            \<and> k < length (m_offsets (snd (WaveformBase_Resize env n b))) \<longrightarrow>
          m_offsets (snd (WaveformBase_Resize env n b)) ! k = Indeterminate"
      "\<forall>k. length (m_durations b) \<le> k
            \<and> k < length (m_durations (snd (WaveformBase_Resize env n b))) \<longrightarrow>
          m_durations (snd (WaveformBase_Resize env n b)) ! k = Indeterminate"
    by (simp_all add: Resize_added_offsets Resize_added_durations
        WaveformBase_Resize_added_offsets WaveformBase_Resize_added_durations)
  have returned: "fst (Resize env init n w) = None \<longrightarrow>
        (\<forall>k. length (m_offsets w) \<le> k \<and> k < unat n \<longrightarrow>
            m_offsets (snd (Resize env init n w)) ! k = Indeterminate)
        \<and> (\<forall>k. length (m_durations w) \<le> k \<and> k < unat n \<longrightarrow>
            m_durations (snd (Resize env init n w)) ! k = Indeterminate)"
    using added(1,2) by (simp add: Resize_returned_lengths)
  have returned_base: "fst (WaveformBase_Resize env n b) = None \<longrightarrow>
        (\<forall>k. length (m_offsets b) \<le> k \<and> k < unat n \<longrightarrow>
            m_offsets (snd (WaveformBase_Resize env n b)) ! k = Indeterminate)
        \<and> (\<forall>k. length (m_durations b) \<le> k \<and> k < unat n \<longrightarrow>
            m_durations (snd (WaveformBase_Resize env n b)) ! k = Indeterminate)"
    using added(3,4) by (simp add: WaveformBase_Resize_returned_lengths)
  from ctor added returned returned_base show ?thesis by blast
qed

theorem constructor_and_Resize_uninitialized_witness:
  "fst (Resize plenty 0 3 one_sample) = None
   \<and> m_offsets (snd (Resize plenty 0 3 one_sample)) ! 2 = Indeterminate
   \<and> m_durations (snd (Resize plenty 0 3 one_sample)) ! 1 = Indeterminate
   \<and> fst (WaveformBase_Resize plenty 3 WaveformBase_new) = None
   \<and> m_offsets (snd (WaveformBase_Resize plenty 3 WaveformBase_new)) ! 0 = Indeterminate
   \<and> m_durations (snd (WaveformBase_Resize plenty 3 WaveformBase_new)) ! 1 = Indeterminate"
proof -
  note t = constructor_and_Resize_uninitialized
    [where w = one_sample and n = 3 and init = 0 and b = WaveformBase_new and env = plenty]
  have r: "fst (Resize plenty 0 3 one_sample) = None"
    by (simp add: Resize_def vector_resize_def plenty_def one_sample_def)
  have rb: "fst (WaveformBase_Resize plenty 3 WaveformBase_new) = None"
    by (simp add: WaveformBase_Resize_def vector_resize_def plenty_def WaveformBase_new_def
        WaveformBase_body_def default_initialized_def)
  have l: "length (m_offsets one_sample) = 1" "length (m_durations one_sample) = 1"
      "length (m_offsets WaveformBase_new) = 0" "length (m_durations WaveformBase_new) = 0"
    by (simp_all add: one_sample_def WaveformBase_new_def WaveformBase_body_def
        default_initialized_def)
  note after = t [THEN conjunct2, THEN conjunct2, THEN conjunct2, THEN conjunct2,
      THEN conjunct2, THEN conjunct2, THEN conjunct2, THEN conjunct2, THEN conjunct2]
  note w1 = after [THEN conjunct1, THEN mp, OF r]
  note b1 = after [THEN conjunct2, THEN mp, OF rb]
  have "m_offsets (snd (Resize plenty 0 3 one_sample)) ! 2 = Indeterminate"
    using w1 [THEN conjunct1, THEN spec, of 2] l by simp
  moreover have "m_durations (snd (Resize plenty 0 3 one_sample)) ! 1 = Indeterminate"
    using w1 [THEN conjunct2, THEN spec, of 1] l by simp
  moreover have "m_offsets (snd (WaveformBase_Resize plenty 3 WaveformBase_new)) ! 0 = Indeterminate"
    using b1 [THEN conjunct1, THEN spec, of 0] l by simp
  moreover have "m_durations (snd (WaveformBase_Resize plenty 3 WaveformBase_new)) ! 1 = Indeterminate"
    using b1 [THEN conjunct2, THEN spec, of 1] l by simp
  ultimately show ?thesis using r rb by simp
qed

section \<open>Enable-state dirty tracking (TektronixOscilloscope.h, specification 4.7)\<close>

text \<open>
  The members the header declares for the workaround: the cached enable flag of each
  channel, \<^verbatim>\<open>std::map<int, bool> m_channelsEnabled\<close>, and the set of channels whose
  enable status changed since the trigger was last armed,
  \<^verbatim>\<open>std::set<size_t> m_channelEnableStatusDirty\<close>.
\<close>

record enable_tracking =
  m_channelsEnabled :: "32 word \<rightharpoonup> bool"
  m_channelEnableStatusDirty :: "size_t set"

text \<open>
  Modelled from the spec: the body of \<^verbatim>\<open>EnableChannel(size_t i)\<close> is not part of the
  header. Every call records the channel index in the dirty-enable set; the write-through
  cache of enable flags takes the new flag. The command sent to the instrument is not
  part of this state.
\<close>

definition EnableChannel :: "size_t \<Rightarrow> enable_tracking \<Rightarrow> enable_tracking" where
  "EnableChannel i st =
     st\<lparr>m_channelsEnabled := (m_channelsEnabled st)(ucast i \<mapsto> True),
        m_channelEnableStatusDirty := insert i (m_channelEnableStatusDirty st)\<rparr>"

text \<open>
  Modelled from the spec: the body of \<^verbatim>\<open>DisableChannel(size_t i)\<close> is not part of the
  header. It records the channel index in the dirty-enable set as \<open>EnableChannel\<close> does,
  and caches the cleared flag.
\<close>

definition DisableChannel :: "size_t \<Rightarrow> enable_tracking \<Rightarrow> enable_tracking" where
  "DisableChannel i st =
     st\<lparr>m_channelsEnabled := (m_channelsEnabled st)(ucast i \<mapsto> False),
        m_channelEnableStatusDirty := insert i (m_channelEnableStatusDirty st)\<rparr>"

text \<open>
  Modelled from the spec: the body of \<^verbatim>\<open>IsEnableStateDirty(size_t chan)\<close> is not part of
  the header. It reports whether the channel is in the dirty-enable set.
\<close>

definition IsEnableStateDirty :: "enable_tracking \<Rightarrow> size_t \<Rightarrow> bool" where
  "IsEnableStateDirty st chan \<longleftrightarrow> chan \<in> m_channelEnableStatusDirty st"

text \<open>
  Modelled from the spec: the body of \<^verbatim>\<open>FlushChannelEnableStates()\<close> is not part of the
  header. It clears the dirty-enable set.
\<close>

definition FlushChannelEnableStates :: "enable_tracking \<Rightarrow> enable_tracking" where
  "FlushChannelEnableStates st = st\<lparr>m_channelEnableStatusDirty := {}\<rparr>"

text \<open>The calls that touch the dirty-enable set, and a run of them in program order.\<close>

datatype enable_call = CallEnable size_t | CallDisable size_t | CallFlush

fun perform :: "enable_call \<Rightarrow> enable_tracking \<Rightarrow> enable_tracking" where
  "perform (CallEnable i) st = EnableChannel i st"
| "perform (CallDisable i) st = DisableChannel i st"
| "perform CallFlush st = FlushChannelEnableStates st"

fun run_calls :: "enable_call list \<Rightarrow> enable_tracking \<Rightarrow> enable_tracking" where
  "run_calls [] st = st"
| "run_calls (c # cs) st = run_calls cs (perform c st)"

lemma perform_keeps_dirty:
  "c \<noteq> CallFlush \<Longrightarrow> IsEnableStateDirty st i \<Longrightarrow> IsEnableStateDirty (perform c st) i"
  by (cases c) (simp_all add: IsEnableStateDirty_def EnableChannel_def DisableChannel_def)

lemma run_calls_keeps_dirty:
  "CallFlush \<notin> set cs \<Longrightarrow> IsEnableStateDirty st i \<Longrightarrow> IsEnableStateDirty (run_calls cs st) i"
proof (induction cs arbitrary: st)
  case Nil
  then show ?case by simp
next
  case (Cons c cs)
  from Cons.prems have "c \<noteq> CallFlush" and rest: "CallFlush \<notin> set cs" by auto
  with Cons.prems have "IsEnableStateDirty (perform c st) i"
    by (simp add: perform_keeps_dirty)
  with rest show ?case by (simp add: Cons.IH)
qed

lemma run_calls_append: "run_calls (cs @ ds) st = run_calls ds (run_calls cs st)"
  by (induction cs arbitrary: st) simp_all

text \<open>
  Claim C6: after \<open>EnableChannel i\<close>, and likewise after \<open>DisableChannel i\<close>, channel \<open>i\<close>
  is dirty and stays dirty through every later run of calls that contains no flush;
  right after \<open>FlushChannelEnableStates\<close> no channel is dirty.
\<close>

theorem dirty_until_flush:
  "(CallFlush \<notin> set cs \<longrightarrow>
      IsEnableStateDirty (run_calls cs (EnableChannel i st)) i
      \<and> IsEnableStateDirty (run_calls cs (DisableChannel i st)) i)
   \<and> \<not> IsEnableStateDirty (FlushChannelEnableStates st) c
   \<and> \<not> IsEnableStateDirty (run_calls (cs @ [CallFlush]) st) c"
proof (intro conjI impI)
  assume nf: "CallFlush \<notin> set cs"
  have "IsEnableStateDirty (EnableChannel i st) i"
    by (simp add: IsEnableStateDirty_def EnableChannel_def)
  with nf show "IsEnableStateDirty (run_calls cs (EnableChannel i st)) i"
    by (rule run_calls_keeps_dirty)
  have "IsEnableStateDirty (DisableChannel i st) i"
    by (simp add: IsEnableStateDirty_def DisableChannel_def)
  with nf show "IsEnableStateDirty (run_calls cs (DisableChannel i st)) i"
    by (rule run_calls_keeps_dirty)
next
  show "\<not> IsEnableStateDirty (FlushChannelEnableStates st) c"
    by (simp add: IsEnableStateDirty_def FlushChannelEnableStates_def)
  show "\<not> IsEnableStateDirty (run_calls (cs @ [CallFlush]) st) c"
    by (simp add: run_calls_append IsEnableStateDirty_def FlushChannelEnableStates_def)
qed

theorem dirty_until_flush_witness:
  "CallFlush \<notin> set [CallEnable 2, CallDisable 1, CallDisable 2]
   \<and> IsEnableStateDirty
        (run_calls [CallEnable 2, CallDisable 1, CallDisable 2]
          (EnableChannel 1 \<lparr>m_channelsEnabled = Map.empty, m_channelEnableStatusDirty = {}\<rparr>)) 1
   \<and> IsEnableStateDirty
        (run_calls [CallEnable 2, CallDisable 1, CallDisable 2]
          (DisableChannel 1 \<lparr>m_channelsEnabled = Map.empty, m_channelEnableStatusDirty = {}\<rparr>)) 1"
  using dirty_until_flush
    [of "[CallEnable 2, CallDisable 1, CallDisable 2]" 1
        "\<lparr>m_channelsEnabled = Map.empty, m_channelEnableStatusDirty = {}\<rparr>"]
  by simp

section \<open>Configuration cache (TektronixOscilloscope.h, specification 4.2)\<close>

text \<open>
  The header declares one cached map per channel property: \<^verbatim>\<open>m_channelOffsets\<close>,
  \<^verbatim>\<open>m_channelVoltageRanges\<close>, \<^verbatim>\<open>m_channelDigitalThresholds\<close>, \<^verbatim>\<open>m_channelCouplings\<close>,
  \<^verbatim>\<open>m_channelAttenuations\<close> and \<^verbatim>\<open>m_channelBandwidthLimits\<close>, each keyed by the channel
  index. A cache key is the channel together with the property; a key without an entry
  is an invalid entry.
\<close>

datatype property_kind =
  Offset | VoltageRange | DigitalThreshold | Coupling | Attenuation | BandwidthLimit

type_synonym cache_key = "size_t \<times> property_kind"

text \<open>
  Modelled from the spec: the transport is not part of the header. One exchange with the
  instrument is a query with its reply, or a command.
\<close>

datatype 'v exchange = Query cache_key 'v | Command cache_key 'v

text \<open>
  Modelled from the spec: the instrument is not part of the header. The state is the
  driver's cache, the setting the instrument holds for each key, what the instrument
  makes of a value written to it (it may round or limit it), and the exchanges made so
  far, oldest first.
\<close>

record 'v config_cache =
  entries :: "cache_key \<rightharpoonup> 'v"
  device :: "cache_key \<Rightarrow> 'v"
  settles :: "cache_key \<Rightarrow> 'v \<Rightarrow> 'v"
  exchanges :: "'v exchange list"

text \<open>
  Modelled from the spec: the bodies of the cached getters of the driver are not part of
  the header. \<open>get(channel, property)\<close> returns a valid entry as it is; an invalid entry
  is filled by one round trip to the instrument and then returned.
\<close>

definition cache_get :: "cache_key \<Rightarrow> 'v config_cache \<Rightarrow> 'v \<times> 'v config_cache" where
  "cache_get k st =
     (case entries st k of
        Some v \<Rightarrow> (v, st)
      | None \<Rightarrow>
          (let v = device st k
           in (v, st\<lparr>entries := (entries st)(k \<mapsto> v),
                      exchanges := exchanges st @ [Query k v]\<rparr>)))"

text \<open>
  Modelled from the spec: the bodies of the cached setters of the driver are not part of
  the header. \<open>set(channel, property, value)\<close> writes to the instrument, then stores the
  written value in the cache and marks it valid, with no read-back.
\<close>

definition cache_set :: "cache_key \<Rightarrow> 'v \<Rightarrow> 'v config_cache \<Rightarrow> 'v config_cache" where
  "cache_set k v st =
     st\<lparr>device := (device st)(k := settles st k v),
        exchanges := exchanges st @ [Command k v],
        entries := (entries st)(k \<mapsto> v)\<rparr>"

text \<open>
  Modelled from the spec: the body of \<^verbatim>\<open>FlushConfigCache()\<close> is not part of the header.
  It is the spec's \<open>invalidateAll()\<close>: every entry becomes invalid.
\<close>

definition FlushConfigCache :: "'v config_cache \<Rightarrow> 'v config_cache" where
  "FlushConfigCache st = st\<lparr>entries := Map.empty\<rparr>"

text \<open>
  Modelled from the spec: the bodies of \<^verbatim>\<open>GetChannelOffset\<close>, \<^verbatim>\<open>SetChannelOffset\<close>,
  \<^verbatim>\<open>GetChannelVoltageRange\<close> and \<^verbatim>\<open>SetChannelVoltageRange\<close> are not part of the header.
  They are the cache operations at the offset and the voltage-range key of channel \<open>i\<close>;
  the header's maps are keyed by the channel alone, so the stream index is not part of
  the key. A \<^verbatim>\<open>float\<close> is carried as its 32-bit pattern.
\<close>

type_synonym float = "32 word"

definition GetChannelOffset :: "size_t \<Rightarrow> size_t \<Rightarrow> float config_cache \<Rightarrow> float \<times> float config_cache" where
  "GetChannelOffset i stream st = cache_get (i, Offset) st"

definition SetChannelOffset :: "size_t \<Rightarrow> size_t \<Rightarrow> float \<Rightarrow> float config_cache \<Rightarrow> float config_cache" where
  "SetChannelOffset i stream offset st = cache_set (i, Offset) offset st"

definition GetChannelVoltageRange :: "size_t \<Rightarrow> size_t \<Rightarrow> float config_cache \<Rightarrow> float \<times> float config_cache" where
  "GetChannelVoltageRange i stream st = cache_get (i, VoltageRange) st"

definition SetChannelVoltageRange :: "size_t \<Rightarrow> size_t \<Rightarrow> float \<Rightarrow> float config_cache \<Rightarrow> float config_cache" where
  "SetChannelVoltageRange i stream rng st = cache_set (i, VoltageRange) rng st"

lemma cache_get_hit: "entries st k = Some v \<Longrightarrow> cache_get k st = (v, st)"
  by (simp add: cache_get_def)

lemma cache_get_miss:
  "entries st k = None \<Longrightarrow>
     exchanges (snd (cache_get k st)) = exchanges st @ [Query k (device st k)]"
  by (simp add: cache_get_def Let_def)

lemma entries_cache_set: "entries (cache_set k v st) k = Some v"
  by (simp add: cache_set_def)

lemma cache_get_cache_set: "cache_get k (cache_set k v st) = (v, cache_set k v st)"
  by (rule cache_get_hit) (rule entries_cache_set)

text \<open>
  Claim C4: for every cache key \<open>k\<close> and every value \<open>v\<close>, a get right after a set of
  the same key returns \<open>v\<close> and leaves the driver as the set left it: the only exchange
  since the state before the set is the set's own command, so the get made no round
  trip. The same holds for the offset and the voltage range of a channel.
\<close>

theorem get_after_set:
  "cache_get k (cache_set k v st) = (v, cache_set k v st)
   \<and> exchanges (snd (cache_get k (cache_set k v st))) = exchanges st @ [Command k v]
   \<and> GetChannelOffset i stream (SetChannelOffset i stream v' c) = (v', SetChannelOffset i stream v' c)
   \<and> GetChannelVoltageRange i stream (SetChannelVoltageRange i stream v' c)
        = (v', SetChannelVoltageRange i stream v' c)"
proof -
  have "exchanges (cache_set k v st) = exchanges st @ [Command k v]"
    by (simp add: cache_set_def)
  then show ?thesis
    by (simp add: cache_get_cache_set GetChannelOffset_def SetChannelOffset_def
        GetChannelVoltageRange_def SetChannelVoltageRange_def)
qed

section \<open>Acquisition of one trigger event (TektronixOscilloscope.h, specification 4.5)\<close>

text \<open>
  Modelled from the spec: the header declares no error type (the acquisition methods
  return \<^verbatim>\<open>bool\<close>). These are the failures the specification's error taxonomy lists.
\<close>

datatype driver_error =
  LinkTimeout | ProtocolDesync | DecodeError | UnsupportedTriggerConfiguration
  | InvalidChannelQuery

text \<open>
  \<^verbatim>\<open>std::map<int, std::vector<WaveformBase*> >\<close>: for each channel index the waveforms
  read for it, one per segment. The same shape holds what the caller can see.
\<close>

type_synonym channel = "32 word"
type_synonym 'w waveforms = "channel \<rightharpoonup> 'w list"

text \<open>
  Modelled from the spec: the body of \<^verbatim>\<open>AcquireDataMSO56(pending_waveforms)\<close> is not part
  of the header. For each enabled channel in turn it fetches and decodes the channel's
  block, \<open>fetch\<close> giving the outcome of that for a channel, and deposits the result in
  the channel's slot of the pending map; the first failure stops the loop and is
  reported, with the pending map as filled so far.
\<close>

fun AcquireDataMSO56 ::
  "(channel \<Rightarrow> driver_error + 'w list) \<Rightarrow> channel list \<Rightarrow> 'w waveforms
     \<Rightarrow> driver_error option \<times> 'w waveforms" where
  "AcquireDataMSO56 fetch [] pending_waveforms = (None, pending_waveforms)"
| "AcquireDataMSO56 fetch (c # cs) pending_waveforms =
     (case fetch c of
        Inl e \<Rightarrow> (Some e, pending_waveforms)
      | Inr wfs \<Rightarrow> AcquireDataMSO56 fetch cs (pending_waveforms(c \<mapsto> wfs)))"

text \<open>
  Modelled from the spec: the body of \<^verbatim>\<open>AcquireData()\<close> is not part of the header. It
  reads all enabled channels into a fresh pending map; after all of them are read the
  pending waveforms are committed together to what the caller sees, and a failure aborts
  the acquisition of the trigger event, surfaces the error and discards the pending map.
\<close>

definition AcquireData ::
  "(channel \<Rightarrow> driver_error + 'w list) \<Rightarrow> channel list \<Rightarrow> 'w waveforms
     \<Rightarrow> driver_error option \<times> 'w waveforms" where
  "AcquireData fetch enabled visible =
     (case AcquireDataMSO56 fetch enabled Map.empty of
        (Some e, partial) \<Rightarrow> (Some e, visible)
      | (None, pending_waveforms) \<Rightarrow> (None, visible ++ pending_waveforms))"

lemma AcquireDataMSO56_all_read:
  "\<forall>c \<in> set cs. \<not> isl (fetch c) \<Longrightarrow>
     fst (AcquireDataMSO56 fetch cs p) = None
     \<and> (\<forall>c. snd (AcquireDataMSO56 fetch cs p) c
            = (if c \<in> set cs then Some (projr (fetch c)) else p c))"
proof (induction cs arbitrary: p)
  case Nil
  then show ?case by simp
next
  case (Cons a cs)
  from Cons.prems obtain w where w: "fetch a = Inr w"
    by (cases "fetch a") auto
  from Cons.prems have rest: "\<forall>c \<in> set cs. \<not> isl (fetch c)" by simp
  have step: "AcquireDataMSO56 fetch (a # cs) p = AcquireDataMSO56 fetch cs (p(a \<mapsto> w))"
    using w by simp
  have ih: "fst (AcquireDataMSO56 fetch cs (p(a \<mapsto> w))) = None
     \<and> (\<forall>c. snd (AcquireDataMSO56 fetch cs (p(a \<mapsto> w))) c
            = (if c \<in> set cs then Some (projr (fetch c)) else (p(a \<mapsto> w)) c))"
    by (rule Cons.IH [OF rest])
  show ?case unfolding step using ih w by auto
qed

lemma AcquireDataMSO56_failure:
  "\<exists>c \<in> set cs. isl (fetch c) \<Longrightarrow> \<exists>e. fst (AcquireDataMSO56 fetch cs p) = Some e"
proof (induction cs arbitrary: p)
  case Nil
  then show ?case by simp
next
  case (Cons a cs)
  show ?case
  proof (cases "fetch a")
    case (Inl e)
    then show ?thesis by simp
  next
    case (Inr w)
    with Cons.prems have "\<exists>c \<in> set cs. isl (fetch c)" by auto
    then have "\<exists>e. fst (AcquireDataMSO56 fetch cs (p(a \<mapsto> w))) = Some e"
      by (rule Cons.IH)
    moreover have "AcquireDataMSO56 fetch (a # cs) p = AcquireDataMSO56 fetch cs (p(a \<mapsto> w))"
      using Inr by simp
    ultimately show ?thesis by simp
  qed
qed

text \<open>
  Claim C3: for every acquisition of one trigger event over any list of enabled channels,
  \<open>AcquireData\<close> commits the waveforms of all enabled channels together or commits
  none: if fetching or decoding the block of any one channel fails, the error is
  surfaced and what the caller sees is exactly what it saw before; if every channel is
  read, each enabled channel shows the waveforms read for it and every other channel is
  untouched.
\<close>

theorem AcquireData_all_or_none:
  "((\<exists>c \<in> set enabled. isl (fetch c)) \<longrightarrow>
      fst (AcquireData fetch enabled visible) \<noteq> None
      \<and> snd (AcquireData fetch enabled visible) = visible)
   \<and> ((\<forall>c \<in> set enabled. \<not> isl (fetch c)) \<longrightarrow>
      fst (AcquireData fetch enabled visible) = None
      \<and> (\<forall>c \<in> set enabled. snd (AcquireData fetch enabled visible) c = Some (projr (fetch c)))
      \<and> (\<forall>c. c \<notin> set enabled \<longrightarrow> snd (AcquireData fetch enabled visible) c = visible c))"
proof (intro conjI impI)
  assume "\<exists>c \<in> set enabled. isl (fetch c)"
  from AcquireDataMSO56_failure [OF this, of Map.empty]
  obtain e where e: "fst (AcquireDataMSO56 fetch enabled Map.empty) = Some e" ..
  obtain r q where rq: "AcquireDataMSO56 fetch enabled Map.empty = (r, q)"
    by (cases "AcquireDataMSO56 fetch enabled Map.empty")
  with e have "r = Some e" by simp
  with rq show "fst (AcquireData fetch enabled visible) \<noteq> None"
    and "snd (AcquireData fetch enabled visible) = visible"
    by (simp_all add: AcquireData_def)
next
  assume ok: "\<forall>c \<in> set enabled. \<not> isl (fetch c)"
  obtain r q where rq: "AcquireDataMSO56 fetch enabled Map.empty = (r, q)"
    by (cases "AcquireDataMSO56 fetch enabled Map.empty")
  from AcquireDataMSO56_all_read [OF ok, of Map.empty] rq
  have n: "r = None"
    and p: "\<And>c. q c = (if c \<in> set enabled then Some (projr (fetch c)) else None)"
    by simp_all
  from n rq have v: "snd (AcquireData fetch enabled visible) = visible ++ q"
    and f: "fst (AcquireData fetch enabled visible) = None"
    by (simp_all add: AcquireData_def)
  show "fst (AcquireData fetch enabled visible) = None" by (rule f)
  show "\<forall>c \<in> set enabled. snd (AcquireData fetch enabled visible) c = Some (projr (fetch c))"
    by (simp add: v p map_add_def)
  show "\<forall>c. c \<notin> set enabled \<longrightarrow> snd (AcquireData fetch enabled visible) c = visible c"
    by (simp add: v p map_add_def)
qed

theorem AcquireData_all_or_none_witness:
  "fst (AcquireData (\<lambda>c. if c = 2 then Inl DecodeError else Inr [c]) [1, 2, 3] [1 \<mapsto> [7]])
      \<noteq> None
   \<and> snd (AcquireData (\<lambda>c. if c = 2 then Inl DecodeError else Inr [c]) [1, 2, 3] [1 \<mapsto> [7]])
      = [1 \<mapsto> [7]]
   \<and> fst (AcquireData (\<lambda>c. Inr [c] :: driver_error + channel list) [1, 2, 3] [1 \<mapsto> [7], 4 \<mapsto> [9]])
      = None
   \<and> snd (AcquireData (\<lambda>c. Inr [c] :: driver_error + channel list) [1, 2, 3] [1 \<mapsto> [7], 4 \<mapsto> [9]]) 1
      = Some [1]
   \<and> snd (AcquireData (\<lambda>c. Inr [c] :: driver_error + channel list) [1, 2, 3] [1 \<mapsto> [7], 4 \<mapsto> [9]]) 4
      = Some [9]"
proof -
  let ?bad = "\<lambda>c :: channel. if c = 2 then Inl DecodeError else Inr [c]"
  let ?good = "\<lambda>c :: channel. Inr [c] :: driver_error + channel list"
  have fails: "\<exists>c \<in> set [1, 2, 3]. isl (?bad c)"
    by (rule bexI [of _ 2]) simp_all
  have reads: "\<forall>c \<in> set [1, 2, 3]. \<not> isl (?good c)"
    by simp
  have outside: "(4 :: channel) \<notin> set [1, 2, 3]"
    by simp
  note none = AcquireData_all_or_none
    [where fetch = ?bad and enabled = "[1, 2, 3]" and visible = "[1 \<mapsto> [7]]",
      THEN conjunct1, THEN mp, OF fails]
  note all = AcquireData_all_or_none
    [where fetch = ?good and enabled = "[1, 2, 3]" and visible = "[1 \<mapsto> [7], 4 \<mapsto> [9]]",
      THEN conjunct2, THEN mp, OF reads]
  from all have one: "snd (AcquireData ?good [1, 2, 3] [1 \<mapsto> [7], 4 \<mapsto> [9]]) 1
      = Some (projr (?good 1))"
    by simp
  from all [THEN conjunct2, THEN conjunct2, THEN spec, of 4] outside
  have four: "snd (AcquireData ?good [1, 2, 3] [1 \<mapsto> [7], 4 \<mapsto> [9]]) 4
      = [1 \<mapsto> [7], 4 \<mapsto> [9]] 4"
    by simp
  from none all one four show ?thesis by simp
qed

section \<open>Binary waveform preamble and block (TektronixOscilloscope.h, specification 4.4)\<close>

text \<open>
  \<^verbatim>\<open>struct mso56_preamble\<close>. The \<^verbatim>\<open>int\<close> members are 32-bit two's complement values, the
  character arrays are strings, a \<^verbatim>\<open>double\<close> is carried as its 64-bit pattern. The two
  anonymous unions each are one \<^verbatim>\<open>double\<close> of storage with two names:
  \<^verbatim>\<open>xincrement\<close>/\<^verbatim>\<open>hzbase\<close> and \<^verbatim>\<open>xzero\<close>/\<^verbatim>\<open>hzoff\<close>.
\<close>

record mso56_preamble =
  byte_num :: "32 word"
  bit_num :: "32 word"
  encoding :: string
  bin_format :: string
  asc_format :: string
  byte_order :: string
  wfid :: string
  nr_pt :: "32 word"
  pt_fmt :: string
  pt_order :: string
  xunit :: string
  xincrement_hzbase :: double
  xzero_hzoff :: double
  pt_off :: "32 word"
  yunit :: string
  ymult :: double
  yoff :: double
  yzero :: double
  domain :: string
  wfmtype :: string
  centerfreq :: double
  span :: double

text \<open>The members of the two unions, by the names the structure gives them.\<close>

definition xincrement :: "mso56_preamble \<Rightarrow> double" where
  "xincrement p = xincrement_hzbase p"

definition hzbase :: "mso56_preamble \<Rightarrow> double" where
  "hzbase p = xincrement_hzbase p"

definition xzero :: "mso56_preamble \<Rightarrow> double" where
  "xzero p = xzero_hzoff p"

definition hzoff :: "mso56_preamble \<Rightarrow> double" where
  "hzoff p = xzero_hzoff p"

text \<open>
  Modelled from the spec: the block reader is not part of the header. The length-prefixed
  binary block that follows the preamble is taken as the transport hands it over: the
  byte length its header declares, and the bytes read after the header.
\<close>

record binary_block =
  declared_length :: nat
  payload :: "8 word list"

text \<open>
  Modelled from the spec: the sample loop of the acquisition is not part of the header.
  The payload is cut into \<open>n\<close> consecutive groups of \<open>k\<close> bytes, one group for each raw
  sample code.
\<close>

fun sample_codes :: "nat \<Rightarrow> nat \<Rightarrow> 8 word list \<Rightarrow> 8 word list list" where
  "sample_codes k 0 bs = []"
| "sample_codes k (Suc n) bs = take k bs # sample_codes k n (drop k bs)"

text \<open>
  Modelled from the spec: the body of \<^verbatim>\<open>ReadPreamble\<close> and the code that reads the block
  are not part of the header. The decoder validates the point count and the width of a
  point against the byte length the block declares; a mismatch is a \<open>DecodeError\<close>. A
  block whose payload is not as long as declared is a \<open>DecodeError\<close> as well. Otherwise
  the result holds one raw code of \<open>byte_num\<close> bytes for each of the \<open>nr_pt\<close> points.
  Parsing the preamble text into the record is not modelled.
\<close>

definition decode :: "mso56_preamble \<Rightarrow> binary_block \<Rightarrow> driver_error + 8 word list list" where
  "decode p b =
     (if sint (nr_pt p) < 0 \<or> sint (byte_num p) \<le> 0 then Inl DecodeError
      else if int (declared_length b) \<noteq> sint (nr_pt p) * sint (byte_num p) then Inl DecodeError
      else if length (payload b) \<noteq> declared_length b then Inl DecodeError
      else Inr (sample_codes (nat (sint (byte_num p))) (nat (sint (nr_pt p))) (payload b)))"

text \<open>A preamble of four one-byte points, for evaluating the decoder.\<close>

definition four_point_preamble :: mso56_preamble where
  "four_point_preamble =
     \<lparr>byte_num = 1, bit_num = 8, encoding = ''BINARY'', bin_format = ''RI'',
      asc_format = ''INTEGER'', byte_order = ''MSB'', wfid = ''Ch1'', nr_pt = 4,
      pt_fmt = ''Y'', pt_order = ''LINEAR'', xunit = ''s'', xincrement_hzbase = 0,
      xzero_hzoff = 0, pt_off = 0, yunit = ''V'', ymult = 0, yoff = 0, yzero = 0,
      domain = ''TIME'', wfmtype = ''ANALOG'', centerfreq = 0, span = 0\<rparr>"

lemma union_members_share_storage:
  "xincrement p = hzbase p \<and> xzero p = hzoff p"
  by (simp add: xincrement_def hzbase_def xzero_def hzoff_def)

lemma length_sample_codes: "length (sample_codes k n bs) = n"
  by (induction n arbitrary: bs) simp_all

lemma concat_sample_codes: "length bs = n * k \<Longrightarrow> concat (sample_codes k n bs) = bs"
proof (induction n arbitrary: bs)
  case 0
  then show ?case by simp
next
  case (Suc n)
  then have "length (drop k bs) = n * k" by simp
  then have "concat (sample_codes k n (drop k bs)) = drop k bs" by (rule Suc.IH)
  then show ?case by simp
qed

lemma width_sample_codes:
  "length bs = n * k \<Longrightarrow> \<forall>s \<in> set (sample_codes k n bs). length s = k"
proof (induction n arbitrary: bs)
  case 0
  then show ?case by simp
next
  case (Suc n)
  then have "length (drop k bs) = n * k" by simp
  then have "\<forall>s \<in> set (sample_codes k n (drop k bs)). length s = k" by (rule Suc.IH)
  moreover from Suc.prems have "length (take k bs) = k" by simp
  ultimately show ?case by simp
qed

text \<open>
  Claim C7: for every preamble whose declared point count, at the declared width of a
  point, does not give the byte length that the following block declares, decoding
  returns a \<open>DecodeError\<close>; and a decode that returns samples returns one for each
  declared point, each of the declared width, which together are the payload as it was
  read: nothing is cut off and nothing is filled in.
\<close>

theorem decode_length_mismatch:
  "(int (declared_length b) \<noteq> sint (nr_pt p) * sint (byte_num p) \<longrightarrow>
      decode p b = Inl DecodeError)
   \<and> (decode p b = Inr samples \<longrightarrow>
      int (length samples) = sint (nr_pt p)
      \<and> (\<forall>s \<in> set samples. int (length s) = sint (byte_num p))
      \<and> concat samples = payload b
      \<and> int (declared_length b) = sint (nr_pt p) * sint (byte_num p))"
proof (intro conjI impI)
  assume "int (declared_length b) \<noteq> sint (nr_pt p) * sint (byte_num p)"
  then show "decode p b = Inl DecodeError" by (simp add: decode_def)
next
  assume r: "decode p b = Inr samples"
  let ?k = "nat (sint (byte_num p))" and ?n = "nat (sint (nr_pt p))"
  from r have n: "0 \<le> sint (nr_pt p)" and k: "0 < sint (byte_num p)"
    and d: "int (declared_length b) = sint (nr_pt p) * sint (byte_num p)"
    and l: "length (payload b) = declared_length b"
    and s: "samples = sample_codes ?k ?n (payload b)"
    by (auto simp: decode_def split: if_splits)
  from n k d have "int (declared_length b) = int (?n * ?k)"
    by simp
  then have "declared_length b = ?n * ?k" by (simp only: of_nat_eq_iff)
  with l have len: "length (payload b) = ?n * ?k" by simp
  show "int (length samples) = sint (nr_pt p)"
    using n by (simp add: s length_sample_codes)
  show "\<forall>s \<in> set samples. int (length s) = sint (byte_num p)"
    using width_sample_codes [OF len] k by (simp add: s)
  show "concat samples = payload b"
    using concat_sample_codes [OF len] by (simp add: s)
  show "int (declared_length b) = sint (nr_pt p) * sint (byte_num p)" by (rule d)
qed

theorem decode_length_mismatch_witness:
  "int (declared_length \<lparr>declared_length = 3, payload = [1, 2, 3]\<rparr>)
      \<noteq> sint (nr_pt four_point_preamble) * sint (byte_num four_point_preamble)
   \<and> decode four_point_preamble \<lparr>declared_length = 3, payload = [1, 2, 3]\<rparr> = Inl DecodeError
   \<and> decode four_point_preamble \<lparr>declared_length = 4, payload = [1, 2, 3, 4]\<rparr>
        = Inr [[1], [2], [3], [4]]
   \<and> int (length [[1], [2], [3], [4 :: 8 word]]) = sint (nr_pt four_point_preamble)
   \<and> concat [[1], [2], [3], [4 :: 8 word]] = payload \<lparr>declared_length = 4, payload = [1, 2, 3, 4]\<rparr>"
proof -
  let ?short = "\<lparr>declared_length = 3, payload = [1, 2, 3 :: 8 word]\<rparr>"
  let ?full = "\<lparr>declared_length = 4, payload = [1, 2, 3, 4 :: 8 word]\<rparr>"
  have mismatch: "int (declared_length ?short)
      \<noteq> sint (nr_pt four_point_preamble) * sint (byte_num four_point_preamble)"
    by (simp add: four_point_preamble_def)
  have decoded: "decode four_point_preamble ?full = Inr [[1], [2], [3], [4]]"
    by (simp add: decode_def four_point_preamble_def eval_nat_numeral)
  note t1 = decode_length_mismatch [where p = four_point_preamble and b = ?short,
      THEN conjunct1, THEN mp, OF mismatch]
  note t2 = decode_length_mismatch [where p = four_point_preamble and b = ?full
      and samples = "[[1], [2], [3], [4]]", THEN conjunct2, THEN mp, OF decoded]
  from mismatch decoded t1 t2 show ?thesis by simp
qed

end
